theory Spec2Isabelle
  imports Complex_Main "HOL-Library.Monad_Syntax" "HOL-Library.Sublist"
begin

section \<open>Provider responses as Python objects\<close>

text \<open>
  Every adapter of \<^verbatim>\<open>streamlit_app.py\<close> runs the same three lines inside its
  \<^verbatim>\<open>try\<close>: \<^verbatim>\<open>requests.get/post\<close>, \<^verbatim>\<open>response.raise_for_status()\<close>,
  \<^verbatim>\<open>response.json()\<close>. Each of the three may raise; otherwise the adapter holds the
  parsed body, an arbitrary Python object built from JSON. Nothing in the source checks
  the shape of that object, so the model keeps all of it: \<open>JFloat\<close> carries the exact
  value of a finite double, a dictionary is an association list read with \<open>map_of\<close>.
\<close>

datatype json =
    JNull
  | JBool bool
  | JInt int
  | JFloat rat
  | JStr string
  | JArr "json list"
  | JObj "(string \<times> json) list"

datatype response =
    ConnectionFailed    \<comment> \<open>\<^verbatim>\<open>requests.get\<close> / \<^verbatim>\<open>requests.post\<close> raises (network error, timeout)\<close>
  | StatusError         \<comment> \<open>\<^verbatim>\<open>raise_for_status\<close> raises (non-success HTTP status)\<close>
  | InvalidJson         \<comment> \<open>\<^verbatim>\<open>response.json()\<close> raises (parse failure)\<close>
  | Body json

datatype request =
    GeocodeReq string         \<comment> \<open>GET, \<^verbatim>\<open>q = place_name\<close>, \<^verbatim>\<open>limit = 1\<close>\<close>
  | ForecastReq rat rat       \<comment> \<open>GET, latitude and longitude\<close>
  | OverpassReq rat rat int   \<comment> \<open>POST, latitude, longitude and \<^verbatim>\<open>limit * 3\<close>\<close>

text \<open>
  In the bodies of the \<^verbatim>\<open>try\<close> blocks \<open>None\<close> stands for "an exception was raised";
  every adapter catches \<^verbatim>\<open>Exception\<close>, so which one it was is never observed.
\<close>

fun fetch :: "response \<Rightarrow> json option" where
  "fetch (Body b) = Some b"
| "fetch _ = None"

subsection \<open>The Python operations the adapters apply to those objects\<close>

text \<open>Truth value testing, as in \<^verbatim>\<open>if not data\<close> and \<^verbatim>\<open>if rain_probs and ...\<close>.\<close>

fun truthy :: "json \<Rightarrow> bool" where
  "truthy JNull = False"
| "truthy (JBool b) = b"
| "truthy (JInt i) = (i \<noteq> 0)"
| "truthy (JFloat r) = (r \<noteq> 0)"
| "truthy (JStr s) = (s \<noteq> [])"
| "truthy (JArr xs) = (xs \<noteq> [])"
| "truthy (JObj kvs) = (kvs \<noteq> [])"

text \<open>
  \<^verbatim>\<open>k in x\<close> for a string \<open>k\<close>: key membership in a dictionary, element membership in a
  list, substring test in a string, \<^verbatim>\<open>TypeError\<close> for anything else.
\<close>

fun py_in :: "string \<Rightarrow> json \<Rightarrow> bool option" where
  "py_in k (JObj kvs) = Some (map_of kvs k \<noteq> None)"
| "py_in k (JArr xs) = Some (JStr k \<in> set xs)"
| "py_in k (JStr s) = Some (sublist k s)"
| "py_in k _ = None"

text \<open>
  \<^verbatim>\<open>x[k]\<close> for a string \<open>k\<close>: \<^verbatim>\<open>KeyError\<close> for a missing key, \<^verbatim>\<open>TypeError\<close> for everything
  that is not a dictionary (lists and strings take integer indices only).
\<close>

fun py_subscript :: "json \<Rightarrow> string \<Rightarrow> json option" where
  "py_subscript (JObj kvs) k = map_of kvs k"
| "py_subscript _ k = None"

text \<open>\<^verbatim>\<open>x.get(k, d)\<close>: only dictionaries have the method (\<^verbatim>\<open>AttributeError\<close> otherwise).\<close>

fun py_get :: "json \<Rightarrow> string \<Rightarrow> json \<Rightarrow> json option" where
  "py_get (JObj kvs) k d = Some (case map_of kvs k of Some v \<Rightarrow> v | None \<Rightarrow> d)"
| "py_get _ k d = None"

text \<open>\<^verbatim>\<open>len(x)\<close>.\<close>

fun py_len :: "json \<Rightarrow> nat option" where
  "py_len (JStr s) = Some (length s)"
| "py_len (JArr xs) = Some (length xs)"
| "py_len (JObj kvs) = Some (length kvs)"
| "py_len _ = None"

text \<open>
  \<^verbatim>\<open>x[0]\<close>: the first element of a list, the first character of a string,
  \<^verbatim>\<open>IndexError\<close> when they are empty; \<^verbatim>\<open>KeyError\<close> on a dictionary, whose keys are all
  strings; \<^verbatim>\<open>TypeError\<close> otherwise.
\<close>

fun py_first :: "json \<Rightarrow> json option" where
  "py_first (JArr (x # xs)) = Some x"
| "py_first (JStr (c # cs)) = Some (JStr [c])"
| "py_first _ = None"

text \<open>
  \<^verbatim>\<open>for element in x\<close>: the elements of a list, the keys of a dictionary, the characters
  of a string; \<^verbatim>\<open>TypeError\<close> otherwise.
\<close>

fun py_iter :: "json \<Rightarrow> json list option" where
  "py_iter (JArr xs) = Some xs"
| "py_iter (JObj kvs) = Some (map (\<lambda>kv. JStr (fst kv)) kvs)"
| "py_iter (JStr s) = Some (map (\<lambda>c. JStr [c]) s)"
| "py_iter _ = None"

text \<open>
  Hashing and equality, as used by the set \<^verbatim>\<open>seen_names\<close> and by the dictionary
  \<^verbatim>\<open>weather_codes\<close>: lists and dictionaries are unhashable (\<^verbatim>\<open>TypeError\<close>); booleans,
  integers and floats are compared by their numeric value (\<^verbatim>\<open>True == 1 == 1.0\<close>).
\<close>

fun hashable :: "json \<Rightarrow> bool" where
  "hashable (JArr xs) = False"
| "hashable (JObj kvs) = False"
| "hashable _ = True"

fun num_val :: "json \<Rightarrow> rat option" where
  "num_val (JBool b) = Some (if b then 1 else 0)"
| "num_val (JInt i) = Some (of_int i)"
| "num_val (JFloat r) = Some r"
| "num_val _ = None"

definition py_eq :: "json \<Rightarrow> json \<Rightarrow> bool" where
  "py_eq a b =
     (case (num_val a, num_val b) of
        (Some x, Some y) \<Rightarrow> x = y
      | (None, None) \<Rightarrow> a = b
      | _ \<Rightarrow> False)"

text \<open>\<^verbatim>\<open>name in seen_names\<close>, for a hashable \<open>name\<close>.\<close>

definition in_seen :: "json \<Rightarrow> json list \<Rightarrow> bool" where
  "in_seen x seen = list_ex (py_eq x) seen"

subsection \<open>String methods\<close>

text \<open>
  \<^verbatim>\<open>s.replace('_', ' ')\<close> and \<^verbatim>\<open>s.title()\<close>. \<^verbatim>\<open>str.title\<close> walks the string once: a cased
  character is upper-cased when the character before it is not cased and lower-cased
  when it is; other characters are copied. A Python string is a sequence of code points
  and a \<open>string\<close> here a sequence of bytes: the model is exact on ASCII text, where the
  cased characters are the 52 letters; a letter outside ASCII is cased in Python and is
  copied unchanged here.
\<close>

definition replace_underscores :: "string \<Rightarrow> string" where
  "replace_underscores s = map (\<lambda>c. if c = CHR ''_'' then CHR '' '' else c) s"

definition ascii_lowercase :: string where
  "ascii_lowercase = ''abcdefghijklmnopqrstuvwxyz''"

definition ascii_uppercase :: string where
  "ascii_uppercase = ''ABCDEFGHIJKLMNOPQRSTUVWXYZ''"

definition is_cased :: "char \<Rightarrow> bool" where
  "is_cased c = (c \<in> set ascii_lowercase \<or> c \<in> set ascii_uppercase)"

definition upper :: "char \<Rightarrow> char" where
  "upper c = (case map_of (zip ascii_lowercase ascii_uppercase) c of Some u \<Rightarrow> u | None \<Rightarrow> c)"

definition lower :: "char \<Rightarrow> char" where
  "lower c = (case map_of (zip ascii_uppercase ascii_lowercase) c of Some l \<Rightarrow> l | None \<Rightarrow> c)"

fun title_from :: "bool \<Rightarrow> string \<Rightarrow> string" where
  "title_from previous_is_cased [] = []"
| "title_from previous_is_cased (c # cs) =
     (if previous_is_cased then lower c else upper c) # title_from (is_cased c) cs"

definition title :: "string \<Rightarrow> string" where
  "title s = title_from False s"

section \<open>The records\<close>

record location =
  name :: string
  latitude :: rat
  longitude :: rat
  display_name :: json

record weather_info =
  temperature :: json
  rain_chance :: json
  weather_code :: json
  description :: string

record place =
  name :: json
  type :: string
  latitude :: json
  longitude :: json

text \<open>
  The dataclasses do not check their field types, so a field filled straight from the
  provider's body holds whatever object was there. The latitude and longitude of a
  \<open>location\<close> come out of \<^verbatim>\<open>float(...)\<close> and are floats.
\<close>

text \<open>
  The side channel: the \<^verbatim>\<open>st.*\<close> calls. An adapter's diagnostic is
  \<^verbatim>\<open>st.error(f"... error: {e}")\<close>; the text of the exception is not modelled.
\<close>

datatype ui =
    ErrorGeocoding
  | ErrorWeather
  | ErrorPlaces
  | ErrorNotFound string              \<comment> \<open>line 164, with the place name\<close>
  | SuccessFound json                 \<comment> \<open>line 167, with \<^verbatim>\<open>location.display_name\<close>\<close>
  | WeatherPanel json string json     \<comment> \<open>lines 173-180: temperature, conditions, rain chance\<close>
  | PlacesPanel "place list"          \<comment> \<open>lines 186-188: one numbered line per place, in list order\<close>
  | WarningNoPlaces                   \<comment> \<open>line 190\<close>

section \<open>GeocodeAgent\<close>

text \<open>
  \<^verbatim>\<open>float\<close> is Python's builtin; it is a parameter \<open>pyfloat\<close> of the model, \<open>None\<close> where
  it raises (\<^verbatim>\<open>ValueError\<close>, \<^verbatim>\<open>TypeError\<close>, \<^verbatim>\<open>OverflowError\<close>). The HTTP layer is the
  parameter \<open>http\<close>, giving the provider's answer to each request.

  The body of the \<^verbatim>\<open>try\<close>: \<open>None\<close> is an exception, \<open>Some None\<close> the \<^verbatim>\<open>return None\<close> of
  line 39.
\<close>

definition get_coordinates_try ::
  "(json \<Rightarrow> rat option) \<Rightarrow> (request \<Rightarrow> response) \<Rightarrow> string \<Rightarrow> location option option" where
  "get_coordinates_try pyfloat http place_name = do {
     data \<leftarrow> fetch (http (GeocodeReq place_name));
     if \<not> truthy data then Some None
     else do {
       location_data \<leftarrow> py_first data;
       lat_field \<leftarrow> py_subscript location_data ''lat'';
       lat \<leftarrow> pyfloat lat_field;
       lon_field \<leftarrow> py_subscript location_data ''lon'';
       lon \<leftarrow> pyfloat lon_field;
       dn \<leftarrow> py_subscript location_data ''display_name'';
       Some (Some \<lparr>location.name = place_name, latitude = lat, longitude = lon,
                   display_name = dn\<rparr>)
     }
   }"

definition get_coordinates ::
  "(json \<Rightarrow> rat option) \<Rightarrow> (request \<Rightarrow> response) \<Rightarrow> string \<Rightarrow> location option \<times> ui list" where
  "get_coordinates pyfloat http place_name =
     (case get_coordinates_try pyfloat http place_name of
        Some r \<Rightarrow> (r, [])
      | None \<Rightarrow> (None, [ErrorGeocoding]))"

section \<open>WeatherAgent\<close>

definition weather_codes :: "(int \<times> string) list" where
  "weather_codes =
     [(0, ''clear sky''), (1, ''mainly clear''), (2, ''partly cloudy''), (3, ''overcast''),
      (45, ''foggy''), (48, ''foggy''), (51, ''light drizzle''), (53, ''moderate drizzle''),
      (55, ''dense drizzle''), (61, ''slight rain''), (63, ''moderate rain''),
      (65, ''heavy rain''), (71, ''slight snow''), (73, ''moderate snow''),
      (75, ''heavy snow''), (95, ''thunderstorm'')]"

text \<open>
  \<^verbatim>\<open>weather_codes.get(code, "unknown weather")\<close>. The annotation \<^verbatim>\<open>code: int\<close> is not
  enforced and \<^verbatim>\<open>get_weather\<close> passes whatever the body held: the lookup hashes the
  code (\<^verbatim>\<open>TypeError\<close> for a list or a dictionary) and compares it with the keys.
\<close>

definition get_weather_description :: "json \<Rightarrow> string option" where
  "get_weather_description code =
     (if \<not> hashable code then None
      else Some (case find (\<lambda>kv. py_eq (JInt (fst kv)) code) weather_codes of
                   Some kv \<Rightarrow> snd kv
                 | None \<Rightarrow> ''unknown weather''))"

text \<open>Lines 70-74.\<close>

definition rain_chance_of :: "json \<Rightarrow> json option" where
  "rain_chance_of daily = do {
     present \<leftarrow> py_in ''precipitation_probability_max'' daily;
     if present then do {
       rain_probs \<leftarrow> py_subscript daily ''precipitation_probability_max'';
       if truthy rain_probs then do {
         n \<leftarrow> py_len rain_probs;
         if n > 0 then py_first rain_probs else Some (JInt 0)
       } else Some (JInt 0)
     } else Some (JInt 0)
   }"

definition get_weather_try :: "(request \<Rightarrow> response) \<Rightarrow> location \<Rightarrow> weather_info option" where
  "get_weather_try http loc = do {
     data \<leftarrow> fetch (http (ForecastReq (location.latitude loc) (location.longitude loc)));
     current \<leftarrow> py_get data ''current'' (JObj []);
     daily \<leftarrow> py_get data ''daily'' (JObj []);
     rc \<leftarrow> rain_chance_of daily;
     code \<leftarrow> py_get current ''weather_code'' (JInt 0);
     descr \<leftarrow> get_weather_description code;
     temp \<leftarrow> py_get current ''temperature_2m'' (JInt 0);
     Some \<lparr>temperature = temp, rain_chance = rc, weather_code = code, description = descr\<rparr>
   }"

definition get_weather ::
  "(request \<Rightarrow> response) \<Rightarrow> location \<Rightarrow> weather_info option \<times> ui list" where
  "get_weather http loc =
     (case get_weather_try http loc of
        Some w \<Rightarrow> (Some w, [])
      | None \<Rightarrow> (None, [ErrorWeather]))"

section \<open>PlacesAgent\<close>

text \<open>
  Lines 126-131: the coordinates of one element. \<open>None\<close> is an exception, \<open>Some None\<close>
  the \<^verbatim>\<open>continue\<close> of line 131. \<^verbatim>\<open>and\<close> does not evaluate \<^verbatim>\<open>'lon' in element\<close> when
  \<^verbatim>\<open>'lat' in element\<close> is false.
\<close>

definition coordinates :: "json \<Rightarrow> (json \<times> json) option option" where
  "coordinates element = do {
     has_lat \<leftarrow> py_in ''lat'' element;
     has_lon \<leftarrow> (if has_lat then py_in ''lon'' element else Some False);
     if has_lat \<and> has_lon then do {
       lat \<leftarrow> py_subscript element ''lat'';
       lon \<leftarrow> py_subscript element ''lon'';
       Some (Some (lat, lon))
     } else do {
       has_center \<leftarrow> py_in ''center'' element;
       if has_center then do {
         center \<leftarrow> py_subscript element ''center'';
         lat \<leftarrow> py_subscript center ''lat'';
         lon \<leftarrow> py_subscript center ''lon'';
         Some (Some (lat, lon))
       } else Some None
     }
   }"

text \<open>
  Line 139 and the \<^verbatim>\<open>type=\<close> argument of line 142:
  \<^verbatim>\<open>tags.get('tourism', tags.get('historic', 'attraction'))\<close>, then
  \<^verbatim>\<open>.replace('_', ' ').title()\<close>, which only a string has (\<^verbatim>\<open>AttributeError\<close>).
\<close>

definition attraction_type :: "json \<Rightarrow> json option" where
  "attraction_type tags = do {
     fallback \<leftarrow> py_get tags ''historic'' (JStr ''attraction'');
     py_get tags ''tourism'' fallback
   }"

fun display_type :: "json \<Rightarrow> string option" where
  "display_type (JStr s) = Some (title (replace_underscores s))"
| "display_type _ = None"

text \<open>
  One pass through the loop body (lines 126-145) with the current \<^verbatim>\<open>seen_names\<close>: an
  exception, a \<^verbatim>\<open>continue\<close>, or a \<open>place\<close> appended. \<^verbatim>\<open>not name or name in seen_names\<close>
  hashes the name only when it is truthy.
\<close>

datatype outcome = Raise | Skip | Accept place

definition step :: "json list \<Rightarrow> json \<Rightarrow> outcome" where
  "step seen_names element =
     (case coordinates element of
        None \<Rightarrow> Raise
      | Some None \<Rightarrow> Skip
      | Some (Some (lat, lon)) \<Rightarrow>
          (case py_get element ''tags'' (JObj []) of
             None \<Rightarrow> Raise
           | Some tags \<Rightarrow>
               (case py_get tags ''name'' (JStr []) of
                  None \<Rightarrow> Raise
                | Some nm \<Rightarrow>
                    if \<not> truthy nm then Skip
                    else if \<not> hashable nm then Raise
                    else if in_seen nm seen_names then Skip
                    else (case Option.bind (attraction_type tags) display_type of
                            None \<Rightarrow> Raise
                          | Some ty \<Rightarrow>
                              Accept \<lparr>place.name = nm, type = ty,
                                      latitude = lat, longitude = lon\<rparr>))))"

text \<open>
  The loop of lines 125-147 over the remaining elements, with the two accumulators
  \<^verbatim>\<open>places\<close> and \<^verbatim>\<open>seen_names\<close>. The test of line 146 comes after the append.
\<close>

fun collect :: "int \<Rightarrow> json list \<Rightarrow> place list \<Rightarrow> json list \<Rightarrow> place list option" where
  "collect limit [] places seen_names = Some places"
| "collect limit (element # rest) places seen_names =
     (case step seen_names element of
        Raise \<Rightarrow> None
      | Skip \<Rightarrow> collect limit rest places seen_names
      | Accept p \<Rightarrow>
          (if int (length (places @ [p])) \<ge> limit then Some (places @ [p])
           else collect limit rest (places @ [p]) (place.name p # seen_names)))"

text \<open>The elements the loop runs over, \<^verbatim>\<open>data.get('elements', [])\<close>.\<close>

definition elements_of :: "response \<Rightarrow> json list option" where
  "elements_of r = do {
     data \<leftarrow> fetch r;
     elements \<leftarrow> py_get data ''elements'' (JArr []);
     py_iter elements
   }"

definition get_tourist_attractions_try ::
  "(request \<Rightarrow> response) \<Rightarrow> location \<Rightarrow> int \<Rightarrow> place list option" where
  "get_tourist_attractions_try http loc limit = do {
     elements \<leftarrow> elements_of
       (http (OverpassReq (location.latitude loc) (location.longitude loc) (limit * 3)));
     collect limit elements [] []
   }"

definition get_tourist_attractions ::
  "(request \<Rightarrow> response) \<Rightarrow> location \<Rightarrow> int \<Rightarrow> place list \<times> ui list" where
  "get_tourist_attractions http loc limit =
     (case get_tourist_attractions_try http loc limit of
        Some places \<Rightarrow> (places, [])
      | None \<Rightarrow> ([], [ErrorPlaces]))"

section \<open>TourismParentAgent\<close>

text \<open>
  \<^verbatim>\<open>process_query\<close> returns nothing; what it does is the sequence of adapter calls and
  \<^verbatim>\<open>st.*\<close> calls it makes. The trace records each adapter call with its arguments and
  the value it returned, followed by the diagnostics that call emitted.
\<close>

datatype event =
    GetCoordinates string "location option"
  | GetWeather location "weather_info option"
  | GetTouristAttractions location int "place list"
  | Display ui

definition weather_stage :: "(request \<Rightarrow> response) \<Rightarrow> location \<Rightarrow> event list" where
  "weather_stage http loc =
     (case get_weather http loc of
        (weather, diag) \<Rightarrow>
          GetWeather loc weather # map Display diag @
          (case weather of
             Some w \<Rightarrow> [Display (WeatherPanel (temperature w) (title (description w))
                                                (rain_chance w))]
           | None \<Rightarrow> []))"

definition places_stage :: "(request \<Rightarrow> response) \<Rightarrow> location \<Rightarrow> event list" where
  "places_stage http loc =
     (case get_tourist_attractions http loc 5 of
        (places, diag) \<Rightarrow>
          GetTouristAttractions loc 5 places # map Display diag @
          [Display (if places \<noteq> [] then PlacesPanel places else WarningNoPlaces)])"

definition process_query ::
  "(json \<Rightarrow> rat option) \<Rightarrow> (request \<Rightarrow> response) \<Rightarrow> string \<Rightarrow> bool \<Rightarrow> bool \<Rightarrow> event list" where
  "process_query pyfloat http place_name get_weather_flag get_places_flag =
     (case get_coordinates pyfloat http place_name of
        (loc_opt, diag) \<Rightarrow>
          GetCoordinates place_name loc_opt # map Display diag @
          (case loc_opt of
             None \<Rightarrow> [Display (ErrorNotFound place_name)]
           | Some loc \<Rightarrow>
               Display (SuccessFound (display_name loc)) #
               (if get_weather_flag then weather_stage http loc else []) @
               (if get_places_flag then places_stage http loc else [])))"

fun is_lookup :: "event \<Rightarrow> bool" where
  "is_lookup (GetWeather loc w) = True"
| "is_lookup (GetTouristAttractions loc limit places) = True"
| "is_lookup _ = False"

section \<open>Notions used to state the properties\<close>

text \<open>
  The places the elements of a response yield on their own, in response order: what the
  loop body builds from each element when no name has been seen yet.
\<close>

fun candidates :: "json list \<Rightarrow> place list" where
  "candidates [] = []"
| "candidates (element # rest) =
     (case step [] element of Accept p \<Rightarrow> p # candidates rest | _ \<Rightarrow> candidates rest)"

text \<open>Two places whose names Python does not consider equal.\<close>

definition unlike :: "place \<Rightarrow> place \<Rightarrow> bool" where
  "unlike p q = (\<not> py_eq (place.name p) (place.name q))"

text \<open>The first place of a list that bears the name of \<open>p\<close>.\<close>

definition first_named :: "place list \<Rightarrow> place \<Rightarrow> place option" where
  "first_named ps p = find (\<lambda>q. py_eq (place.name q) (place.name p)) ps"

text \<open>The elements the places loop receives for a query; none when the lookup fails before the loop.\<close>

definition response_elements :: "(request \<Rightarrow> response) \<Rightarrow> location \<Rightarrow> int \<Rightarrow> json list" where
  "response_elements http loc limit =
     (case elements_of
        (http (OverpassReq (location.latitude loc) (location.longitude loc) (limit * 3))) of
        Some elements \<Rightarrow> elements
      | None \<Rightarrow> [])"

text \<open>An element with a direct \<^verbatim>\<open>lat\<close>/\<^verbatim>\<open>lon\<close> pair or with a \<^verbatim>\<open>center\<close>.\<close>

definition has_coordinates :: "json \<Rightarrow> bool" where
  "has_coordinates element =
     ((py_in ''lat'' element = Some True \<and> py_in ''lon'' element = Some True) \<or>
      py_in ''center'' element = Some True)"


text \<open>The daily precipitation series of a forecast body, if there is one.\<close>

definition precipitation_series :: "json \<Rightarrow> json option" where
  "precipitation_series data =
     Option.bind (py_get data ''daily'' (JObj []))
       (\<lambda>daily. py_subscript daily ''precipitation_probability_max'')"

text \<open>
  A forecast body in the provider's format as far as the adapter reads it: a dictionary
  whose \<^verbatim>\<open>current\<close> part, if any, is a dictionary with a hashable weather code, and
  whose \<^verbatim>\<open>daily\<close> part, if any, is a dictionary.
\<close>

definition readable_forecast :: "json \<Rightarrow> bool" where
  "readable_forecast data =
     (case (py_get data ''current'' (JObj []), py_get data ''daily'' (JObj [])) of
        (Some current, Some (JObj daily)) \<Rightarrow>
          (case py_get current ''weather_code'' (JInt 0) of
             Some code \<Rightarrow> hashable code
           | None \<Rightarrow> False)
      | _ \<Rightarrow> False)"

section \<open>A provider to run the adapters on\<close>

definition paris :: location where
  "paris = \<lparr>location.name = ''Paris'', latitude = 488566 / 10000, longitude = 23522 / 10000,
            display_name = JStr ''Paris, France''\<rparr>"

text \<open>\<^verbatim>\<open>float\<close> on the values of the example.\<close>

fun example_float :: "json \<Rightarrow> rat option" where
  "example_float (JStr s) =
     (if s = ''48.8566'' then Some (488566 / 10000)
      else if s = ''2.3522'' then Some (23522 / 10000) else None)"
| "example_float (JInt i) = Some (of_int i)"
| "example_float (JFloat r) = Some r"
| "example_float _ = None"

definition example_forecast :: json where
  "example_forecast =
     JObj [(''current'', JObj [(''temperature_2m'', JFloat (37 / 2)), (''weather_code'', JInt 3)]),
           (''daily'', JObj [(''precipitation_probability_max'', JArr [JInt 30, JInt 45])])]"

definition example_forecast_dry :: json where
  "example_forecast_dry =
     JObj [(''current'', JObj [(''temperature_2m'', JInt 21), (''weather_code'', JInt 0)]),
           (''daily'', JObj [(''precipitation_probability_max'', JArr [])])]"

definition louvre :: json where
  "louvre = JObj [(''type'', JStr ''node''), (''lat'', JFloat (4886 / 100)), (''lon'', JFloat (234 / 100)),
                  (''tags'', JObj [(''name'', JStr ''Louvre''), (''tourism'', JStr ''museum'')])]"

definition no_position :: json where
  "no_position = JObj [(''type'', JStr ''way''),
                       (''tags'', JObj [(''name'', JStr ''Hidden''), (''tourism'', JStr ''artwork'')])]"

definition unnamed :: json where
  "unnamed = JObj [(''type'', JStr ''way''),
                   (''center'', JObj [(''lat'', JFloat (4885 / 100)), (''lon'', JFloat (235 / 100))]),
                   (''tags'', JObj [(''name'', JStr []), (''tourism'', JStr ''viewpoint'')])]"

definition louvre_again :: json where
  "louvre_again = JObj [(''type'', JStr ''way''),
                        (''center'', JObj [(''lat'', JFloat (4886 / 100)), (''lon'', JFloat (233 / 100))]),
                        (''tags'', JObj [(''name'', JStr ''Louvre''), (''tourism'', JStr ''attraction'')])]"

definition arch :: json where
  "arch = JObj [(''type'', JStr ''way''),
                (''center'', JObj [(''lat'', JFloat (4887 / 100)), (''lon'', JFloat (229 / 100))]),
                (''tags'', JObj [(''name'', JStr ''Arc de Triomphe''),
                                 (''historic'', JStr ''historic_monument'')])]"

definition seine :: json where
  "seine = JObj [(''type'', JStr ''node''), (''lat'', JInt 49), (''lon'', JInt 2),
                 (''tags'', JObj [(''name'', JStr ''Seine'')])]"

definition example_overpass :: json where
  "example_overpass =
     JObj [(''elements'', JArr [louvre, no_position, unnamed, louvre_again, arch, seine])]"

definition louvre_place :: place where
  "louvre_place = \<lparr>place.name = JStr ''Louvre'', type = ''Museum'',
                    latitude = JFloat (4886 / 100), longitude = JFloat (234 / 100)\<rparr>"

definition arch_place :: place where
  "arch_place = \<lparr>place.name = JStr ''Arc de Triomphe'', type = ''Historic Monument'',
                  latitude = JFloat (4887 / 100), longitude = JFloat (229 / 100)\<rparr>"

definition seine_place :: place where
  "seine_place = \<lparr>place.name = JStr ''Seine'', type = ''Attraction'',
                   latitude = JInt 49, longitude = JInt 2\<rparr>"

text \<open>
  A provider that knows one place, Paris, and answers the forecast and the places
  requests with the two given responses.
\<close>

fun example_provider :: "response \<Rightarrow> response \<Rightarrow> request \<Rightarrow> response" where
  "example_provider forecast overpass (GeocodeReq q) =
     (if q = ''Paris''
      then Body (JArr [JObj [(''lat'', JStr ''48.8566''), (''lon'', JStr ''2.3522''),
                             (''display_name'', JStr ''Paris, France'')]])
      else Body (JArr []))"
| "example_provider forecast overpass (ForecastReq lat lon) = forecast"
| "example_provider forecast overpass (OverpassReq lat lon n) = overpass"

section \<open>Facts about the Python operations\<close>

lemma py_eq_refl: "py_eq a a"
  by (simp add: py_eq_def split: option.splits)

lemma py_eq_sym: "py_eq a b \<Longrightarrow> py_eq b a"
  by (auto simp: py_eq_def split: option.splits)

lemma py_eq_trans: "py_eq a b \<Longrightarrow> py_eq b c \<Longrightarrow> py_eq a c"
  by (auto simp: py_eq_def split: option.splits)

lemma in_seen_Nil: "\<not> in_seen x []"
  by (simp add: in_seen_def)

lemma in_seen_Cons: "in_seen x (y # ys) \<longleftrightarrow> py_eq x y \<or> in_seen x ys"
  by (simp add: in_seen_def)

lemma in_seen_cong: "py_eq a b \<Longrightarrow> in_seen a seen \<Longrightarrow> in_seen b seen"
  unfolding in_seen_def list_ex_iff by (meson py_eq_sym py_eq_trans)

lemma in_seen_set: "set seen1 = set seen2 \<Longrightarrow> in_seen x seen1 = in_seen x seen2"
  by (simp add: in_seen_def list_ex_iff)

text \<open>\<^verbatim>\<open>str.title\<close> capitalises a word of letters and starts afresh after a space.\<close>

lemma title_from_cased:
  "\<forall>c\<in>set w. is_cased c \<Longrightarrow> title_from True w = map lower w"
  by (induction w) auto

lemma title_word:
  "\<forall>c\<in>set (a # w). is_cased c \<Longrightarrow> title (a # w) = upper a # map lower w"
  by (simp add: title_def title_from_cased)

lemma title_from_append:
  "title_from b (u @ CHR '' '' # v) = title_from b u @ CHR '' '' # title_from False v"
  by (induction u arbitrary: b)
     (simp_all add: upper_def lower_def is_cased_def ascii_lowercase_def ascii_uppercase_def)

lemma title_space: "title (u @ CHR '' '' # v) = title u @ CHR '' '' # title v"
  by (simp add: title_def title_from_append)

section \<open>The loop body\<close>

lemma step_Accept_fresh: "step seen e = Accept p \<Longrightarrow> \<not> in_seen (place.name p) seen"
  by (auto simp: step_def split: option.splits if_splits prod.splits)

lemma step_Accept_alone: "step seen e = Accept p \<Longrightarrow> step [] e = Accept p"
  by (auto simp: step_def in_seen_Nil split: option.splits if_splits prod.splits)

lemma step_Skip_seen:
  "step seen e = Skip \<Longrightarrow> step [] e = Accept q \<Longrightarrow> in_seen (place.name q) seen"
  by (auto simp: step_def in_seen_Nil split: option.splits if_splits prod.splits)

lemma step_Accept_truthy: "step seen e = Accept p \<Longrightarrow> truthy (place.name p)"
  by (auto simp: step_def split: option.splits if_splits prod.splits)

lemma coordinates_Some_has:
  "coordinates e = Some (Some c) \<Longrightarrow> has_coordinates e"
  by (auto simp: coordinates_def has_coordinates_def split: Option.bind_splits if_splits)

lemma coordinates_lacking:
  "\<not> has_coordinates e \<Longrightarrow> coordinates e = None \<or> coordinates e = Some None"
  by (metis coordinates_Some_has option.exhaust)

lemma coordinates_lacking_obj:
  "\<not> has_coordinates (JObj kvs) \<Longrightarrow> coordinates (JObj kvs) = Some None"
  by (auto simp: coordinates_def has_coordinates_def)

lemma step_Accept_has_coordinates: "step seen e = Accept p \<Longrightarrow> has_coordinates e"
  using coordinates_lacking[of e]
  by (auto simp: step_def split: option.splits)

lemma step_set: "set seen1 = set seen2 \<Longrightarrow> step seen1 e = step seen2 e"
  by (simp add: step_def in_seen_set[of seen1 seen2] cong: option.case_cong if_cong)

lemma candidates_built: "p \<in> set (candidates es) \<Longrightarrow> \<exists>e\<in>set es. step [] e = Accept p"
  by (induction es) (auto split: outcome.splits)

section \<open>The loop\<close>

text \<open>
  What the loop adds to \<^verbatim>\<open>places\<close>: names not seen before and unlike each other, taken
  from the candidates in their order, each the first candidate of its name; and the
  test after the append lets one place through whatever the limit is.
\<close>

lemma collect_new:
  "collect limit es places seen = Some r \<Longrightarrow>
   \<exists>new. r = places @ new \<and>
     (\<forall>p\<in>set new. \<not> in_seen (place.name p) seen) \<and>
     sorted_wrt unlike new \<and>
     subseq new (candidates es) \<and>
     (\<forall>p\<in>set new. first_named (candidates es) p = Some p) \<and>
     (new \<noteq> [] \<longrightarrow> int (length r) \<le> max limit (int (length places) + 1))"
proof (induction es arbitrary: places seen)
  case Nil
  then show ?case by simp
next
  case (Cons e es)
  show ?case
  proof (cases "step seen e")
    case Raise
    with Cons.prems show ?thesis by simp
  next
    case Skip
    with Cons.prems have "collect limit es places seen = Some r" by simp
    from Cons.IH[OF this] obtain new where
      r: "r = places @ new" and
      fresh: "\<forall>p\<in>set new. \<not> in_seen (place.name p) seen" and
      sw: "sorted_wrt unlike new" and
      ss: "subseq new (candidates es)" and
      fo: "\<forall>p\<in>set new. first_named (candidates es) p = Some p" and
      len: "new \<noteq> [] \<longrightarrow> int (length r) \<le> max limit (int (length places) + 1)"
      by blast
    have ss': "subseq new (candidates (e # es))"
      using ss by (cases "step [] e") auto
    have fo': "\<forall>p\<in>set new. first_named (candidates (e # es)) p = Some p"
    proof
      fix p assume p: "p \<in> set new"
      show "first_named (candidates (e # es)) p = Some p"
      proof (cases "step [] e")
        case (Accept q)
        have "in_seen (place.name q) seen" by (rule step_Skip_seen[OF Skip Accept])
        with fresh p have "\<not> py_eq (place.name q) (place.name p)"
          using in_seen_cong by blast
        with Accept fo p show ?thesis by (simp add: first_named_def)
      qed (use fo p in \<open>simp_all add: first_named_def\<close>)
    qed
    from r fresh sw ss' fo' len show ?thesis by blast
  next
    case (Accept p)
    note alone = step_Accept_alone[OF Accept]
    note pfresh = step_Accept_fresh[OF Accept]
    show ?thesis
    proof (cases "int (length (places @ [p])) \<ge> limit")
      case True
      with Accept Cons.prems have r: "r = places @ [p]" by simp
      have "first_named (candidates (e # es)) p = Some p"
        using alone by (simp add: first_named_def py_eq_refl)
      moreover have "subseq [p] (candidates (e # es))"
        using alone by simp
      ultimately show ?thesis using r pfresh by auto
    next
      case False
      with Accept Cons.prems
      have "collect limit es (places @ [p]) (place.name p # seen) = Some r" by simp
      from Cons.IH[OF this] obtain new where
        r: "r = (places @ [p]) @ new" and
        fresh: "\<forall>q\<in>set new. \<not> in_seen (place.name q) (place.name p # seen)" and
        sw: "sorted_wrt unlike new" and
        ss: "subseq new (candidates es)" and
        fo: "\<forall>q\<in>set new. first_named (candidates es) q = Some q" and
        len: "new \<noteq> [] \<longrightarrow> int (length r) \<le> max limit (int (length (places @ [p])) + 1)"
        by blast
      have r': "r = places @ (p # new)" using r by simp
      have fresh': "\<forall>q\<in>set (p # new). \<not> in_seen (place.name q) seen"
        using fresh pfresh by (simp add: in_seen_Cons)
      have diff: "\<forall>q\<in>set new. unlike p q"
        using fresh by (auto simp: in_seen_Cons unlike_def dest: py_eq_sym)
      have sw': "sorted_wrt unlike (p # new)" using sw diff by simp
      have ss': "subseq (p # new) (candidates (e # es))" using ss alone by simp
      have fo': "\<forall>q\<in>set (p # new). first_named (candidates (e # es)) q = Some q"
        using fo diff alone by (auto simp: first_named_def py_eq_refl unlike_def)
      have len': "int (length r) \<le> max limit (int (length places) + 1)"
        using len False r by (cases "new = []") auto
      from r' fresh' sw' ss' fo' len' show ?thesis by blast
    qed
  qed
qed

lemma collect_set: "set seen1 = set seen2 \<Longrightarrow> collect limit es places seen1 = collect limit es places seen2"
proof (induction es arbitrary: places seen1 seen2)
  case Nil
  show ?case by simp
next
  case (Cons e es)
  have s: "step seen1 e = step seen2 e" by (rule step_set[OF Cons.prems])
  show ?case
  proof (cases "step seen2 e")
    case (Accept p)
    have "set (place.name p # seen1) = set (place.name p # seen2)" using Cons.prems by simp
    from Cons.IH[OF this] Cons.IH[OF Cons.prems] s Accept show ?thesis by simp
  qed (use s Cons.IH[OF Cons.prems] in simp_all)
qed

lemma collect_drop_skipped:
  "\<forall>seen. step seen e = Skip \<Longrightarrow>
   collect limit (before @ e # after) places seen = collect limit (before @ after) places seen"
  by (induction before arbitrary: places seen) (simp_all split: outcome.splits)

text \<open>The list returned is empty or what the loop returned on the elements of the response.\<close>

lemma attractions_collect:
  "fst (get_tourist_attractions http loc limit) = [] \<or>
   collect limit (response_elements http loc limit) [] [] =
     Some (fst (get_tourist_attractions http loc limit))"
  by (auto simp: get_tourist_attractions_def get_tourist_attractions_try_def
        response_elements_def split: option.splits Option.bind_splits)

lemma attractions_properties:
  "sorted_wrt unlike (fst (get_tourist_attractions http loc limit)) \<and>
   subseq (fst (get_tourist_attractions http loc limit))
     (candidates (response_elements http loc limit)) \<and>
   (\<forall>p\<in>set (fst (get_tourist_attractions http loc limit)).
      first_named (candidates (response_elements http loc limit)) p = Some p) \<and>
   int (length (fst (get_tourist_attractions http loc limit))) \<le> max limit 1"
  using attractions_collect[of http loc limit]
proof
  assume "fst (get_tourist_attractions http loc limit) = []"
  then show ?thesis by simp
next
  assume "collect limit (response_elements http loc limit) [] [] =
     Some (fst (get_tourist_attractions http loc limit))"
  from collect_new[OF this] show ?thesis by (cases "fst (get_tourist_attractions http loc limit) = []") auto
qed

lemma attractions_built:
  assumes "p \<in> set (fst (get_tourist_attractions http loc limit))"
  shows "\<exists>e\<in>set (response_elements http loc limit). step [] e = Accept p"
proof -
  from attractions_properties[of http loc limit]
  have "subseq (fst (get_tourist_attractions http loc limit))
     (candidates (response_elements http loc limit))" by blast
  from list_emb_set[OF this assms]
  have "p \<in> set (candidates (response_elements http loc limit))"
    by auto
  then show ?thesis by (rule candidates_built)
qed

lemma sorted_wrt_unlike_distinct: "sorted_wrt unlike ps \<Longrightarrow> distinct (map place.name ps)"
  by (induction ps) (auto simp: unlike_def py_eq_refl)

section \<open>Running the adapters on the example provider\<close>

lemmas casing = title_def replace_underscores_def upper_def lower_def is_cased_def
  ascii_lowercase_def ascii_uppercase_def

lemmas example_elements = example_overpass_def louvre_def no_position_def unnamed_def
  louvre_again_def arch_def seine_def louvre_place_def arch_place_def seine_place_def

lemmas places_code = get_tourist_attractions_def get_tourist_attractions_try_def
  elements_of_def step_def coordinates_def attraction_type_def in_seen_def py_eq_def

lemma example_coordinates:
  "get_coordinates example_float (example_provider forecast overpass) ''Paris'' = (Some paris, [])"
  by (simp add: get_coordinates_def get_coordinates_try_def paris_def)

lemma example_attractions_5:
  "get_tourist_attractions (example_provider forecast (Body example_overpass)) paris 5
     = ([louvre_place, arch_place, seine_place], [])"
  by (simp add: places_code example_elements casing)

lemma example_attractions_2:
  "get_tourist_attractions (example_provider forecast (Body example_overpass)) paris 2
     = ([louvre_place, arch_place], [])"
  by (simp add: places_code example_elements casing)

lemma example_attractions_0:
  "get_tourist_attractions (example_provider forecast (Body example_overpass)) paris 0
     = ([louvre_place], [])"
  by (simp add: places_code example_elements casing)

lemma example_response_elements:
  "response_elements (example_provider forecast (Body example_overpass)) paris limit
     = [louvre, no_position, unnamed, louvre_again, arch, seine]"
  by (simp add: response_elements_def elements_of_def example_overpass_def)

lemma example_weather:
  "get_weather (example_provider (Body example_forecast) overpass) paris
     = (Some \<lparr>temperature = JFloat (37 / 2), rain_chance = JInt 30, weather_code = JInt 3,
               description = ''overcast''\<rparr>, [])"
  by (simp add: get_weather_def get_weather_try_def example_forecast_def rain_chance_of_def
        get_weather_description_def py_eq_def weather_codes_def)

lemma example_weather_dry:
  "get_weather (example_provider (Body example_forecast_dry) overpass) paris
     = (Some \<lparr>temperature = JInt 21, rain_chance = JInt 0, weather_code = JInt 0,
               description = ''clear sky''\<rparr>, [])"
  by (simp add: get_weather_def get_weather_try_def example_forecast_dry_def rain_chance_of_def
        get_weather_description_def py_eq_def weather_codes_def)

lemma example_weather_bare:
  "get_weather (example_provider (Body (JObj [])) overpass) paris
     = (Some \<lparr>temperature = JInt 0, rain_chance = JInt 0, weather_code = JInt 0,
               description = ''clear sky''\<rparr>, [])"
  by (simp add: get_weather_def get_weather_try_def rain_chance_of_def
        get_weather_description_def py_eq_def weather_codes_def)

lemma example_weather_down:
  "get_weather (example_provider ConnectionFailed overpass) paris = (None, [ErrorWeather])"
  by (simp add: get_weather_def get_weather_try_def)

section \<open>WeatherAgent: the description table and the rain chance\<close>

text \<open>
  C3. The description lookup answers every integer code with a phrase: code 0 with
  "clear sky", and every code that is not a key of the table, 99 among them, with
  "unknown weather".
\<close>

theorem weather_description_total:
  "(\<exists>phrase. get_weather_description (JInt code) = Some phrase) \<and>
   get_weather_description (JInt 0) = Some ''clear sky'' \<and>
   get_weather_description (JInt 99) = Some ''unknown weather'' \<and>
   (code \<notin> set (map fst weather_codes) \<longrightarrow>
      get_weather_description (JInt code) = Some ''unknown weather'')"
proof -
  have known: "get_weather_description (JInt 0) = Some ''clear sky''"
    by (simp add: get_weather_description_def py_eq_def weather_codes_def)
  have unknown: "get_weather_description (JInt 99) = Some ''unknown weather''"
    by (simp add: get_weather_description_def py_eq_def weather_codes_def)
  have "find (\<lambda>kv. py_eq (JInt (fst kv)) (JInt code)) weather_codes = None"
    if "code \<notin> set (map fst weather_codes)"
    using that by (force simp: find_None_iff py_eq_def)
  then have fallback: "code \<notin> set (map fst weather_codes) \<longrightarrow>
      get_weather_description (JInt code) = Some ''unknown weather''"
    by (simp add: get_weather_description_def)
  have "\<exists>phrase. get_weather_description (JInt code) = Some phrase"
    by (simp add: get_weather_description_def)
  with known unknown fallback show ?thesis by blast
qed

theorem weather_description_total_witness:
  "(7::int) \<notin> set (map fst weather_codes) \<and>
   get_weather_description (JInt 7) = Some ''unknown weather''"
proof -
  have h: "(7::int) \<notin> set (map fst weather_codes)" by (simp add: weather_codes_def)
  with weather_description_total[of 7] show ?thesis by blast
qed

lemma rain_chance_of_cases:
  assumes "rain_chance_of daily = Some rc"
  shows "(\<forall>x xs. py_subscript daily ''precipitation_probability_max'' = Some (JArr (x # xs))
            \<longrightarrow> rc = x) \<and>
         (py_subscript daily ''precipitation_probability_max'' = None \<or>
          py_subscript daily ''precipitation_probability_max'' = Some (JArr [])
            \<longrightarrow> rc = JInt 0)"
  using assms
  by (cases daily) (auto simp: rain_chance_of_def split: if_splits Option.bind_splits)

text \<open>On a dictionary the rain chance is computed without an exception in the three cases.\<close>

lemma rain_chance_of_missing:
  "map_of daily ''precipitation_probability_max'' = None \<Longrightarrow>
   rain_chance_of (JObj daily) = Some (JInt 0)"
  by (simp add: rain_chance_of_def)

lemma rain_chance_of_empty:
  "map_of daily ''precipitation_probability_max'' = Some (JArr []) \<Longrightarrow>
   rain_chance_of (JObj daily) = Some (JInt 0)"
  by (simp add: rain_chance_of_def)

lemma rain_chance_of_first:
  "map_of daily ''precipitation_probability_max'' = Some (JArr (x # xs)) \<Longrightarrow>
   rain_chance_of (JObj daily) = Some x"
  by (simp add: rain_chance_of_def)

text \<open>
  A readable body always yields a WeatherInfo, with the rain chance that lines 70-74
  compute from its daily part.
\<close>

lemma get_weather_readable:
  assumes "http (ForecastReq (location.latitude loc) (location.longitude loc)) = Body data"
    and "py_get data ''daily'' (JObj []) = Some (JObj daily)"
    and "readable_forecast data"
    and "rain_chance_of (JObj daily) = Some rc"
  shows "\<exists>w. get_weather http loc = (Some w, []) \<and> rain_chance w = rc"
proof -
  from assms(2,3) obtain current code where
    c: "py_get data ''current'' (JObj []) = Some current" and
    k: "py_get current ''weather_code'' (JInt 0) = Some code" and
    h: "hashable code"
    by (auto simp: readable_forecast_def split: option.splits json.splits)
  from k obtain ckvs where "current = JObj ckvs" by (cases current) simp_all
  then obtain temp where t: "py_get current ''temperature_2m'' (JInt 0) = Some temp" by simp
  from h obtain descr where d: "get_weather_description code = Some descr"
    by (simp add: get_weather_description_def)
  from assms(1,2,4) c k t d
  have "get_weather_try http loc =
      Some \<lparr>temperature = temp, rain_chance = rc, weather_code = code, description = descr\<rparr>"
    by (simp add: get_weather_try_def)
  then show ?thesis by (simp add: get_weather_def)
qed

text \<open>
  C4. The rain chance of the WeatherInfo returned is the first element of the daily
  precipitation series when that series is a non-empty array, and 0 when the series is
  missing or an empty array: so it is whenever a WeatherInfo is returned, and for a body
  in the provider's format one is returned in each of these cases.
\<close>

theorem rain_chance_first_or_zero:
  assumes "http (ForecastReq (location.latitude loc) (location.longitude loc)) = Body data"
  shows "(\<forall>w diag. get_weather http loc = (Some w, diag) \<longrightarrow>
            (\<forall>x xs. precipitation_series data = Some (JArr (x # xs)) \<longrightarrow> rain_chance w = x) \<and>
            (precipitation_series data = None \<or> precipitation_series data = Some (JArr [])
               \<longrightarrow> rain_chance w = JInt 0)) \<and>
         (readable_forecast data \<longrightarrow>
            (precipitation_series data = None \<or> precipitation_series data = Some (JArr [])
               \<longrightarrow> (\<exists>w. get_weather http loc = (Some w, []) \<and> rain_chance w = JInt 0)) \<and>
            (\<forall>x xs. precipitation_series data = Some (JArr (x # xs))
               \<longrightarrow> (\<exists>w. get_weather http loc = (Some w, []) \<and> rain_chance w = x)))"
proof -
  have returned: "(\<forall>x xs. precipitation_series data = Some (JArr (x # xs)) \<longrightarrow> rain_chance w = x) \<and>
      (precipitation_series data = None \<or> precipitation_series data = Some (JArr [])
         \<longrightarrow> rain_chance w = JInt 0)"
    if "get_weather http loc = (Some w, diag)" for w diag
  proof -
    from that have "get_weather_try http loc = Some w"
      by (simp add: get_weather_def split: option.splits)
    with assms obtain daily where
      d: "py_get data ''daily'' (JObj []) = Some daily" and
      rc: "rain_chance_of daily = Some (rain_chance w)"
      by (auto simp: get_weather_try_def split: Option.bind_splits)
    from d have "precipitation_series data = py_subscript daily ''precipitation_probability_max''"
      by (simp add: precipitation_series_def)
    with rain_chance_of_cases[OF rc] show ?thesis by simp
  qed
  have produced: "(precipitation_series data = None \<or> precipitation_series data = Some (JArr [])
        \<longrightarrow> (\<exists>w. get_weather http loc = (Some w, []) \<and> rain_chance w = JInt 0)) \<and>
      (\<forall>x xs. precipitation_series data = Some (JArr (x # xs))
        \<longrightarrow> (\<exists>w. get_weather http loc = (Some w, []) \<and> rain_chance w = x))"
    if r: "readable_forecast data"
  proof -
    from r obtain daily where d: "py_get data ''daily'' (JObj []) = Some (JObj daily)"
      by (auto simp: readable_forecast_def split: option.splits json.splits)
    then have s: "precipitation_series data = map_of daily ''precipitation_probability_max''"
      by (simp add: precipitation_series_def)
    note gw = get_weather_readable[of http loc data daily, OF assms d r]
    show ?thesis
      unfolding s
      using gw[OF rain_chance_of_missing] gw[OF rain_chance_of_empty] gw[OF rain_chance_of_first]
      by blast
  qed
  from returned produced show ?thesis by blast
qed

theorem rain_chance_first_or_zero_witness:
  "precipitation_series example_forecast = Some (JArr [JInt 30, JInt 45]) \<and>
   readable_forecast example_forecast \<and>
   get_weather (example_provider (Body example_forecast) ConnectionFailed) paris
     = (Some \<lparr>temperature = JFloat (37 / 2), rain_chance = JInt 30, weather_code = JInt 3,
               description = ''overcast''\<rparr>, []) \<and>
   precipitation_series example_forecast_dry = Some (JArr []) \<and>
   readable_forecast example_forecast_dry \<and>
   fst (get_weather (example_provider (Body example_forecast_dry) ConnectionFailed) paris)
     \<noteq> None \<and>
   rain_chance (the (fst (get_weather (example_provider (Body example_forecast_dry)
      ConnectionFailed) paris))) = JInt 0 \<and>
   precipitation_series (JObj []) = None \<and>
   readable_forecast (JObj []) \<and>
   fst (get_weather (example_provider (Body (JObj [])) ConnectionFailed) paris) \<noteq> None \<and>
   rain_chance (the (fst (get_weather (example_provider (Body (JObj [])) ConnectionFailed)
      paris))) = JInt 0"
proof -
  have s1: "precipitation_series example_forecast = Some (JArr [JInt 30, JInt 45])"
    by (simp add: precipitation_series_def example_forecast_def)
  have s2: "precipitation_series example_forecast_dry = Some (JArr [])"
    by (simp add: precipitation_series_def example_forecast_dry_def)
  have s3: "precipitation_series (JObj []) = None"
    by (simp add: precipitation_series_def)
  have r1: "readable_forecast example_forecast"
    by (simp add: readable_forecast_def example_forecast_def)
  have r2: "readable_forecast example_forecast_dry"
    by (simp add: readable_forecast_def example_forecast_dry_def)
  have r3: "readable_forecast (JObj [])"
    by (simp add: readable_forecast_def)
  have b1: "example_provider (Body example_forecast) ConnectionFailed
      (ForecastReq (location.latitude paris) (location.longitude paris)) = Body example_forecast"
    by simp
  have b2: "example_provider (Body example_forecast_dry) ConnectionFailed
      (ForecastReq (location.latitude paris) (location.longitude paris))
        = Body example_forecast_dry"
    by simp
  have b3: "example_provider (Body (JObj [])) ConnectionFailed
      (ForecastReq (location.latitude paris) (location.longitude paris)) = Body (JObj [])"
    by simp
  from rain_chance_first_or_zero
      [of "example_provider (Body example_forecast_dry) ConnectionFailed" paris
          example_forecast_dry, OF b2] r2 s2
  have dry: "\<exists>w. get_weather (example_provider (Body example_forecast_dry) ConnectionFailed) paris
      = (Some w, []) \<and> rain_chance w = JInt 0"
    by blast
  from rain_chance_first_or_zero
      [of "example_provider (Body (JObj [])) ConnectionFailed" paris "JObj []", OF b3] r3 s3
  have bare: "\<exists>w. get_weather (example_provider (Body (JObj [])) ConnectionFailed) paris
      = (Some w, []) \<and> rain_chance w = JInt 0"
    by blast
  from rain_chance_first_or_zero
      [of "example_provider (Body example_forecast) ConnectionFailed" paris
          example_forecast, OF b1] r1 s1
  have wet: "\<exists>w. get_weather (example_provider (Body example_forecast) ConnectionFailed) paris
      = (Some w, []) \<and> rain_chance w = JInt 30"
    by blast
  from dry bare wet s1 s2 s3 r1 r2 r3 show ?thesis
    by (auto simp: example_weather)
qed

section \<open>PlacesAgent: the list returned\<close>

text \<open>
  What holds of the list returned, for every response and every limit: no two places in
  it have the same name (none that Python's comparison takes for equal, so none that are
  identical); it is a subsequence of the candidates in response order, and each place in
  it is the first candidate of its name; from limit 1 on, its length is at most the limit.
\<close>

theorem attractions_unique_ordered_capped:
  "distinct (map place.name (fst (get_tourist_attractions http loc limit))) \<and>
   sorted_wrt unlike (fst (get_tourist_attractions http loc limit)) \<and>
   subseq (fst (get_tourist_attractions http loc limit))
     (candidates (response_elements http loc limit)) \<and>
   (\<forall>p\<in>set (fst (get_tourist_attractions http loc limit)).
      first_named (candidates (response_elements http loc limit)) p = Some p) \<and>
   (1 \<le> limit \<longrightarrow> int (length (fst (get_tourist_attractions http loc limit))) \<le> limit) \<and>
   int (length (fst (get_tourist_attractions http loc limit))) \<le> max limit 1"
  using attractions_properties[of http loc limit]
    sorted_wrt_unlike_distinct[of "fst (get_tourist_attractions http loc limit)"]
  by auto

theorem attractions_unique_ordered_capped_witness:
  "(1::int) \<le> 2 \<and>
   fst (get_tourist_attractions (example_provider ConnectionFailed (Body example_overpass)) paris 2)
     = [louvre_place, arch_place] \<and>
   int (length (fst (get_tourist_attractions
     (example_provider ConnectionFailed (Body example_overpass)) paris 2))) \<le> 2 \<and>
   first_named (candidates (response_elements
     (example_provider ConnectionFailed (Body example_overpass)) paris 2)) louvre_place
     = Some louvre_place"
  using attractions_unique_ordered_capped
    [of "example_provider ConnectionFailed (Body example_overpass)" paris 2]
  by (simp add: example_attractions_2)

text \<open>
  C2. The list returned has no two places of the same name, keeps the first occurrence of
  each name in encounter order, and is meant to hold at most \<^verbatim>\<open>limit\<close> places. The
  cap is tested on line 146 only after a place has been appended: with limit 0 and the
  example response the loop appends the first feature, finds \<^verbatim>\<open>1 >= 0\<close> and returns
  a list of one place, longer than the limit.
\<close>

theorem attractions_limit_zero_overrun:
  "get_tourist_attractions (example_provider ConnectionFailed (Body example_overpass)) paris 0
     = ([louvre_place], []) \<and>
   \<not> int (length (fst (get_tourist_attractions
       (example_provider ConnectionFailed (Body example_overpass)) paris 0))) \<le> 0"
  by (simp add: example_attractions_0)







text \<open>
  C6. An element with neither a \<^verbatim>\<open>lat\<close>/\<^verbatim>\<open>lon\<close> pair nor a \<^verbatim>\<open>center\<close> is never turned
  into a place, whatever names have been seen; when it is a dictionary the loop passes
  over it, so that the response without it gives the same list; and every place of the
  list returned was built from an element of the response that has coordinates.
\<close>

theorem no_coordinates_excluded:
  "(\<not> has_coordinates element \<longrightarrow>
      (\<forall>seen p. step seen element \<noteq> Accept p) \<and>
      (\<forall>kvs. element = JObj kvs \<longrightarrow>
         collect limit (before @ element # after) [] [] = collect limit (before @ after) [] [])) \<and>
   (\<forall>p\<in>set (fst (get_tourist_attractions http loc limit)).
      \<exists>e\<in>set (response_elements http loc limit). has_coordinates e \<and> step [] e = Accept p)"
proof -
  have "step seen element \<noteq> Accept p" if "\<not> has_coordinates element" for seen p
    using that step_Accept_has_coordinates by blast
  moreover have "collect limit (before @ element # after) [] [] = collect limit (before @ after) [] []"
    if "\<not> has_coordinates element" "element = JObj kvs" for kvs
  proof -
    from that have "\<forall>seen. step seen element = Skip"
      by (simp add: step_def coordinates_lacking_obj)
    then show ?thesis by (rule collect_drop_skipped)
  qed
  moreover have "\<exists>e\<in>set (response_elements http loc limit). has_coordinates e \<and> step [] e = Accept p"
    if "p \<in> set (fst (get_tourist_attractions http loc limit))" for p
    using attractions_built[OF that] step_Accept_has_coordinates by blast
  ultimately show ?thesis by blast
qed

theorem no_coordinates_excluded_witness:
  "\<not> has_coordinates no_position \<and> step [] no_position = Skip \<and>
   collect 5 ([louvre] @ no_position # [arch]) [] [] = collect 5 ([louvre] @ [arch]) [] [] \<and>
   (\<exists>e\<in>set (response_elements (example_provider ConnectionFailed (Body example_overpass)) paris 5).
      has_coordinates e \<and> step [] e = Accept seine_place)"
proof -
  have h: "\<not> has_coordinates no_position"
    by (simp add: has_coordinates_def no_position_def)
  have s: "step [] no_position = Skip"
    by (simp add: step_def coordinates_def no_position_def)
  have m: "seine_place \<in> set (fst (get_tourist_attractions
      (example_provider ConnectionFailed (Body example_overpass)) paris 5))"
    by (simp add: example_attractions_5)
  from no_coordinates_excluded[of no_position 5 "[louvre]" "[arch]"
      "example_provider ConnectionFailed (Body example_overpass)" paris] h s m
  show ?thesis by (simp add: no_position_def)
qed

text \<open>
  C10. An element whose tags map \<^verbatim>\<open>name\<close> to the empty string is treated as one whose
  tags have no \<^verbatim>\<open>name\<close>: the loop passes over both (or fails on their coordinates), and no
  place of the list returned has the empty string as its name.
\<close>

theorem empty_name_skipped:
  "(py_get element ''tags'' (JObj []) = Some (JObj ts) \<and>
    (map_of ts ''name'' = Some (JStr []) \<or> map_of ts ''name'' = None) \<longrightarrow>
      step seen element = (if coordinates element = None then Raise else Skip)) \<and>
   (\<forall>p\<in>set (fst (get_tourist_attractions http loc limit)).
      place.name p \<noteq> JStr [] \<and> truthy (place.name p))"
proof -
  have "step seen element = (if coordinates element = None then Raise else Skip)"
    if "py_get element ''tags'' (JObj []) = Some (JObj ts)"
      "map_of ts ''name'' = Some (JStr []) \<or> map_of ts ''name'' = None"
    using that by (auto simp: step_def split: option.splits)
  moreover have "place.name p \<noteq> JStr [] \<and> truthy (place.name p)"
    if "p \<in> set (fst (get_tourist_attractions http loc limit))" for p
  proof -
    from attractions_built[OF that] obtain e where "step [] e = Accept p" by blast
    then have "truthy (place.name p)" by (rule step_Accept_truthy)
    then show ?thesis by auto
  qed
  ultimately show ?thesis by blast
qed

theorem empty_name_skipped_witness:
  "py_get unnamed ''tags'' (JObj [])
     = Some (JObj [(''name'', JStr []), (''tourism'', JStr ''viewpoint'')]) \<and>
   step [] unnamed = Skip \<and>
   louvre_place \<in> set (fst (get_tourist_attractions
      (example_provider ConnectionFailed (Body example_overpass)) paris 5)) \<and>
   place.name louvre_place \<noteq> JStr []"
proof -
  have t: "py_get unnamed ''tags'' (JObj [])
     = Some (JObj [(''name'', JStr []), (''tourism'', JStr ''viewpoint'')])"
    by (simp add: unnamed_def)
  have n: "map_of [(''name'', JStr []), (''tourism'', JStr ''viewpoint'')] ''name'' = Some (JStr [])"
    by simp
  have c: "coordinates unnamed \<noteq> None"
    by (simp add: coordinates_def unnamed_def)
  have m: "louvre_place \<in> set (fst (get_tourist_attractions
      (example_provider ConnectionFailed (Body example_overpass)) paris 5))"
    by (simp add: example_attractions_5)
  from empty_name_skipped[of unnamed "[(''name'', JStr []), (''tourism'', JStr ''viewpoint'')]" "[]"
      "example_provider ConnectionFailed (Body example_overpass)" paris 5] t n c m
  show ?thesis by auto
qed

text \<open>
  C8. When the request fails (the connection, the status or the parsing of the body), and
  whenever anything else raises inside the \<^verbatim>\<open>try\<close>, the places lookup returns the empty
  list and emits its diagnostic; a body without features also gives the empty list, with
  no diagnostic. The value returned is the same, the side channel tells them apart.
\<close>

theorem failure_returns_empty_list:
  assumes "r = http (OverpassReq (location.latitude loc) (location.longitude loc) (limit * 3))"
  shows "(r = ConnectionFailed \<or> r = StatusError \<or> r = InvalidJson \<longrightarrow>
            get_tourist_attractions http loc limit = ([], [ErrorPlaces])) \<and>
         (get_tourist_attractions_try http loc limit = None \<longrightarrow>
            get_tourist_attractions http loc limit = ([], [ErrorPlaces])) \<and>
         (r = Body (JObj [(''elements'', JArr [])]) \<or> r = Body (JObj []) \<longrightarrow>
            get_tourist_attractions http loc limit = ([], []))"
  using assms
  by (auto simp: get_tourist_attractions_def get_tourist_attractions_try_def elements_of_def)

theorem failure_returns_empty_list_witness:
  "get_tourist_attractions (example_provider ConnectionFailed StatusError) paris 5
     = ([], [ErrorPlaces]) \<and>
   get_tourist_attractions (example_provider ConnectionFailed
     (Body (JObj [(''elements'', JArr [])]))) paris 5 = ([], [])"
proof -
  have a: "StatusError = example_provider ConnectionFailed StatusError
      (OverpassReq (location.latitude paris) (location.longitude paris) (5 * 3))"
    by simp
  have b: "Body (JObj [(''elements'', JArr [])]) =
      example_provider ConnectionFailed (Body (JObj [(''elements'', JArr [])]))
      (OverpassReq (location.latitude paris) (location.longitude paris) (5 * 3))"
    by simp
  from failure_returns_empty_list
      [of StatusError "example_provider ConnectionFailed StatusError" paris 5, OF a]
    failure_returns_empty_list
      [of "Body (JObj [(''elements'', JArr [])])"
          "example_provider ConnectionFailed (Body (JObj [(''elements'', JArr [])]))" paris 5, OF b]
  show ?thesis by simp
qed

section \<open>TourismParentAgent: the stages\<close>

lemma lookups_weather_stage:
  "filter is_lookup (weather_stage http loc) = [GetWeather loc (fst (get_weather http loc))]"
  by (cases "get_weather http loc")
     (auto simp: weather_stage_def filter_empty_conv split: option.splits)

lemma lookups_places_stage:
  "filter is_lookup (places_stage http loc)
     = [GetTouristAttractions loc 5 (fst (get_tourist_attractions http loc 5))]"
  by (cases "get_tourist_attractions http loc 5")
     (auto simp: places_stage_def filter_empty_conv)

lemma lookups_process_query:
  assumes "fst (get_coordinates pyfloat http place_name) = Some loc"
  shows "filter is_lookup (process_query pyfloat http place_name get_weather_flag get_places_flag)
     = (if get_weather_flag then [GetWeather loc (fst (get_weather http loc))] else []) @
       (if get_places_flag
        then [GetTouristAttractions loc 5 (fst (get_tourist_attractions http loc 5))] else [])"
  using assms
  by (cases "get_coordinates pyfloat http place_name")
     (auto simp: process_query_def lookups_weather_stage lookups_places_stage filter_empty_conv)

lemma process_query_unknown:
  assumes "fst (get_coordinates pyfloat http place_name) = None"
  shows "process_query pyfloat http place_name get_weather_flag get_places_flag
     = GetCoordinates place_name None #
       map Display (snd (get_coordinates pyfloat http place_name)) @
       [Display (ErrorNotFound place_name)]"
  using assms
  by (cases "get_coordinates pyfloat http place_name") (simp add: process_query_def)

text \<open>
  C1. When the geocoder answers with no match, no Location is produced and the query
  ends with the not-found notice: neither lookup is made, whatever the flags. A query
  whose place is found makes every lookup its flags ask for.
\<close>

theorem unknown_place_stops:
  "(http (GeocodeReq place_name) = Body (JArr []) \<longrightarrow>
      get_coordinates pyfloat http place_name = (None, []) \<and>
      process_query pyfloat http place_name get_weather_flag get_places_flag
        = [GetCoordinates place_name None, Display (ErrorNotFound place_name)]) \<and>
   (fst (get_coordinates pyfloat http place_name) = None \<longrightarrow>
      filter is_lookup
        (process_query pyfloat http place_name get_weather_flag get_places_flag) = []) \<and>
   (fst (get_coordinates pyfloat http place_name) \<noteq> None \<longrightarrow>
      length (filter is_lookup
        (process_query pyfloat http place_name get_weather_flag get_places_flag))
        = (if get_weather_flag then 1 else 0) + (if get_places_flag then 1 else 0))"
proof -
  have none: "get_coordinates pyfloat http place_name = (None, [])"
    if "http (GeocodeReq place_name) = Body (JArr [])"
    using that by (simp add: get_coordinates_def get_coordinates_try_def)
  have stop: "process_query pyfloat http place_name get_weather_flag get_places_flag
        = [GetCoordinates place_name None, Display (ErrorNotFound place_name)]"
    if "http (GeocodeReq place_name) = Body (JArr [])"
    using none[OF that] by (simp add: process_query_def)
  have quiet: "filter is_lookup
        (process_query pyfloat http place_name get_weather_flag get_places_flag) = []"
    if "fst (get_coordinates pyfloat http place_name) = None"
    by (simp add: process_query_unknown[OF that] filter_empty_conv)
  have found: "length (filter is_lookup
        (process_query pyfloat http place_name get_weather_flag get_places_flag))
        = (if get_weather_flag then 1 else 0) + (if get_places_flag then 1 else 0)"
    if "fst (get_coordinates pyfloat http place_name) \<noteq> None"
  proof -
    from that obtain loc where "fst (get_coordinates pyfloat http place_name) = Some loc"
      by auto
    from lookups_process_query[OF this] show ?thesis by simp
  qed
  from none stop quiet found show ?thesis by blast
qed

theorem unknown_place_stops_witness:
  "example_provider (Body example_forecast) (Body example_overpass) (GeocodeReq ''Atlantis'')
     = Body (JArr []) \<and>
   process_query example_float (example_provider (Body example_forecast) (Body example_overpass))
     ''Atlantis'' True True
     = [GetCoordinates ''Atlantis'' None, Display (ErrorNotFound ''Atlantis'')] \<and>
   length (filter is_lookup (process_query example_float
     (example_provider (Body example_forecast) (Body example_overpass)) ''Paris'' True True)) = 2"
proof -
  have h: "example_provider (Body example_forecast) (Body example_overpass)
      (GeocodeReq ''Atlantis'') = Body (JArr [])"
    by simp
  have f: "fst (get_coordinates example_float
      (example_provider (Body example_forecast) (Body example_overpass)) ''Paris'') \<noteq> None"
    by (simp add: example_coordinates)
  from unknown_place_stops[of "example_provider (Body example_forecast) (Body example_overpass)"
      "''Atlantis''" example_float True True]
    unknown_place_stops[of "example_provider (Body example_forecast) (Body example_overpass)"
      "''Paris''" example_float True True] h f
  show ?thesis by simp
qed

text \<open>
  C7. When the place is found, the lookups of a query are the weather lookup if its flag
  is set, followed by the places lookup if its flag is set, and nothing else: weather
  comes before places, a lookup is left out exactly when its flag is false, and the places
  lookup is made also when the weather lookup returned nothing.
\<close>

theorem lookups_in_order:
  assumes "fst (get_coordinates pyfloat http place_name) = Some loc"
  shows "filter is_lookup
           (process_query pyfloat http place_name get_weather_flag get_places_flag)
         = (if get_weather_flag then [GetWeather loc (fst (get_weather http loc))] else []) @
           (if get_places_flag
            then [GetTouristAttractions loc 5 (fst (get_tourist_attractions http loc 5))]
            else []) \<and>
         (get_places_flag \<and> fst (get_weather http loc) = None \<longrightarrow>
            GetTouristAttractions loc 5 (fst (get_tourist_attractions http loc 5))
              \<in> set (process_query pyfloat http place_name get_weather_flag get_places_flag))"
proof -
  note l = lookups_process_query[OF assms, of get_weather_flag get_places_flag]
  have "GetTouristAttractions loc 5 (fst (get_tourist_attractions http loc 5))
      \<in> set (filter is_lookup
          (process_query pyfloat http place_name get_weather_flag get_places_flag))"
    if get_places_flag
    unfolding l using that by simp
  then show ?thesis using l by auto
qed

theorem lookups_in_order_witness:
  "fst (get_coordinates example_float (example_provider ConnectionFailed (Body example_overpass))
     ''Paris'') = Some paris \<and>
   filter is_lookup (process_query example_float
     (example_provider ConnectionFailed (Body example_overpass)) ''Paris'' True True)
     = [GetWeather paris None,
        GetTouristAttractions paris 5 [louvre_place, arch_place, seine_place]]"
proof -
  have h: "fst (get_coordinates example_float
      (example_provider ConnectionFailed (Body example_overpass)) ''Paris'') = Some paris"
    by (simp add: example_coordinates)
  from lookups_in_order[OF h, of True True] show ?thesis
    by (simp add: h example_weather_down example_attractions_5)
qed

lemma get_weather_same:
  "http1 (ForecastReq (location.latitude loc) (location.longitude loc))
     = http2 (ForecastReq (location.latitude loc) (location.longitude loc)) \<Longrightarrow>
   get_weather http1 loc = get_weather http2 loc"
  by (simp add: get_weather_def get_weather_try_def)

lemma get_tourist_attractions_same:
  "http1 (OverpassReq (location.latitude loc) (location.longitude loc) (limit * 3))
     = http2 (OverpassReq (location.latitude loc) (location.longitude loc) (limit * 3)) \<Longrightarrow>
   get_tourist_attractions http1 loc limit = get_tourist_attractions http2 loc limit"
  by (simp add: get_tourist_attractions_def get_tourist_attractions_try_def)

text \<open>
  C9. Two runs of a query with the same place name and flags, against providers that
  give the same answers to the requests the query makes, produce the same trace: the same
  Location, the same WeatherInfo and the same list of places in the same order. The
  loop's result does not depend on the order in which the seen names are kept.
\<close>

theorem same_responses_same_results:
  assumes "http1 (GeocodeReq place_name) = http2 (GeocodeReq place_name)"
    and "\<forall>loc. fst (get_coordinates pyfloat http1 place_name) = Some loc \<longrightarrow>
           (get_weather_flag \<longrightarrow>
              http1 (ForecastReq (location.latitude loc) (location.longitude loc))
                = http2 (ForecastReq (location.latitude loc) (location.longitude loc))) \<and>
           (get_places_flag \<longrightarrow>
              http1 (OverpassReq (location.latitude loc) (location.longitude loc) 15)
                = http2 (OverpassReq (location.latitude loc) (location.longitude loc) 15))"
  shows "process_query pyfloat http1 place_name get_weather_flag get_places_flag
           = process_query pyfloat http2 place_name get_weather_flag get_places_flag \<and>
         (set seen1 = set seen2 \<longrightarrow>
            collect limit elements places seen1 = collect limit elements places seen2)"
proof -
  have g: "get_coordinates pyfloat http1 place_name = get_coordinates pyfloat http2 place_name"
    using assms(1) by (simp add: get_coordinates_def get_coordinates_try_def)
  have "process_query pyfloat http1 place_name get_weather_flag get_places_flag
           = process_query pyfloat http2 place_name get_weather_flag get_places_flag"
  proof (cases "fst (get_coordinates pyfloat http1 place_name)")
    case None
    then show ?thesis using g by (simp add: process_query_unknown)
  next
    case (Some loc)
    with assms(2) have
      w: "get_weather_flag \<longrightarrow> get_weather http1 loc = get_weather http2 loc" and
      p: "get_places_flag \<longrightarrow>
            get_tourist_attractions http1 loc 5 = get_tourist_attractions http2 loc 5"
      using get_weather_same[of http1 loc http2]
        get_tourist_attractions_same[of http1 loc 5 http2]
      by simp_all
    from Some g w p show ?thesis
      by (cases "get_coordinates pyfloat http2 place_name")
         (simp add: process_query_def weather_stage_def places_stage_def)
  qed
  then show ?thesis using collect_set by blast
qed

theorem same_responses_same_results_witness:
  "example_provider (Body example_forecast) (Body example_overpass) (GeocodeReq ''Paris'')
     = example_provider ConnectionFailed (Body example_overpass) (GeocodeReq ''Paris'') \<and>
   process_query example_float (example_provider (Body example_forecast) (Body example_overpass))
     ''Paris'' False True
   = process_query example_float (example_provider ConnectionFailed (Body example_overpass))
     ''Paris'' False True \<and>
   collect 5 [louvre, louvre_again, arch] [] [JStr ''Louvre'', JStr ''Seine'']
   = collect 5 [louvre, louvre_again, arch] [] [JStr ''Seine'', JStr ''Louvre'']"
proof -
  have h1: "example_provider (Body example_forecast) (Body example_overpass) (GeocodeReq ''Paris'')
     = example_provider ConnectionFailed (Body example_overpass) (GeocodeReq ''Paris'')"
    by simp
  have h2: "\<forall>loc. fst (get_coordinates example_float
        (example_provider (Body example_forecast) (Body example_overpass)) ''Paris'') = Some loc \<longrightarrow>
      (False \<longrightarrow>
         example_provider (Body example_forecast) (Body example_overpass)
           (ForecastReq (location.latitude loc) (location.longitude loc))
         = example_provider ConnectionFailed (Body example_overpass)
           (ForecastReq (location.latitude loc) (location.longitude loc))) \<and>
      (True \<longrightarrow>
         example_provider (Body example_forecast) (Body example_overpass)
           (OverpassReq (location.latitude loc) (location.longitude loc) 15)
         = example_provider ConnectionFailed (Body example_overpass)
           (OverpassReq (location.latitude loc) (location.longitude loc) 15))"
    by simp
  have s: "set [JStr ''Louvre'', JStr ''Seine''] = set [JStr ''Seine'', JStr ''Louvre'']"
    by auto
  from same_responses_same_results
    [of "example_provider (Body example_forecast) (Body example_overpass)" "''Paris''"
        "example_provider ConnectionFailed (Body example_overpass)" example_float False True
        "[JStr ''Louvre'', JStr ''Seine'']" "[JStr ''Seine'', JStr ''Louvre'']"
        5 "[louvre, louvre_again, arch]" "[]", OF h1 h2] h1 s
  show ?thesis by blast
qed

end
